theory Spec2Isabelle
  imports Main "HOL-Library.Word"
begin

unbundle bit_operations_syntax

section \<open>The pastes table\<close>

text \<open>
  \<^verbatim>\<open>main.py\<close> declares one table, \<^verbatim>\<open>pastes\<close>, with seven columns, none of them
  nullable, and \<^verbatim>\<open>id\<close> as primary key. A row is a record with one field per
  column. Two columns are renamed, because their names are taken in Isabelle:
  \<^verbatim>\<open>id\<close> is \<open>paste_id\<close> (the handler's own name for it) and \<^verbatim>\<open>syntax\<close> is
  \<open>syntax_hint\<close>. Each \<open>char\<close> of a \<open>string\<close> stands for one character of the
  Python \<^verbatim>\<open>str\<close>, so \<open>length\<close> is what SQL's \<^verbatim>\<open>length()\<close> counts. The
  \<^verbatim>\<open>DateTime\<close> column is a point on the clock's time line, an \<open>int\<close>
  (microseconds).
\<close>

record paste =
  paste_id :: string
  content :: string
  title :: string
  syntax_hint :: string
  expires :: string
  visibility :: string
  created_at :: int

text \<open>
  The state of the database is the table's rows in the order the engine scans them.
  \<^verbatim>\<open>main.py\<close> hands every value to the engine as it got it, and the engine
  (PostgreSQL) refuses a text value that holds the character NUL: the statement fails
  with a data error when its parameters are read, before anything is looked up or
  written. That holds for the six text columns of an \<^verbatim>\<open>INSERT\<close> and for the key of a
  lookup. An \<^verbatim>\<open>INSERT\<close> whose values are accepted adds a row at the end, and is refused
  when the primary key is already there: the driver raises a unique violation. After
  either failure the table is as it was.
\<close>

type_synonym table = "paste list"

datatype db_error = DataError | UniqueViolation

definition nul_free :: "string \<Rightarrow> bool" where
  "nul_free s = (CHR 0x00 \<notin> set s)"

definition row_nul_free :: "paste \<Rightarrow> bool" where
  "row_nul_free r =
     (nul_free (paste_id r) \<and> nul_free (content r) \<and> nul_free (title r) \<and>
      nul_free (syntax_hint r) \<and> nul_free (expires r) \<and> nul_free (visibility r))"

definition execute_insert :: "paste \<Rightarrow> table \<Rightarrow> db_error + table" where
  "execute_insert row db =
     (if \<not> row_nul_free row then Inl DataError
      else if paste_id row \<in> set (map paste_id db) then Inl UniqueViolation
      else Inr (db @ [row]))"

text \<open>\<^verbatim>\<open>select([pastes]).where(pastes.c.id == paste_id)\<close> with \<^verbatim>\<open>fetch_one\<close>: a data
  error for a key the engine refuses; otherwise the first row with that key, or
  \<^verbatim>\<open>None\<close>.\<close>

definition fetch_one :: "string \<Rightarrow> table \<Rightarrow> db_error + paste option" where
  "fetch_one i db =
     (if \<not> nul_free i then Inl DataError else Inr (find (\<lambda>r. paste_id r = i) db))"

text \<open>
  \<^verbatim>\<open>ORDER BY key DESC\<close> is an ascending sort on the negated key. SQL leaves the order
  of rows with equal keys to the engine; here they keep their scan order (the sort is
  stable). Since the theorems below hold for every table, that is for every scan
  order, they hold for whatever order the engine gives to ties (see
  \<open>order_by_desc_fixpoint\<close>). \<^verbatim>\<open>LIMIT n\<close> keeps the first \<open>n\<close> rows.
\<close>

definition order_by_desc :: "(paste \<Rightarrow> int) \<Rightarrow> table \<Rightarrow> table" where
  "order_by_desc key db = sort_key (\<lambda>r. - key r) db"

definition limit :: "nat \<Rightarrow> table \<Rightarrow> table" where
  "limit n db = take n db"

section \<open>The identifier: \<^verbatim>\<open>uuid.uuid4().hex[:8]\<close>\<close>

text \<open>
  \<^verbatim>\<open>uuid.uuid4()\<close> draws 16 random bytes, reads them as a 128-bit integer and sets the
  version and variant bits:
  \<^verbatim>\<open>
    int &= ~(0xc000 << 48);  int |= 0x8000 << 48
    int &= ~(0xf000 << 64);  int |= 4 << 76
  \<close>
  \<^verbatim>\<open>.hex\<close> is \<^verbatim>\<open>'%032x' % int\<close>: 32 lowercase hexadecimal digits, the most significant
  first. The random bytes are the environment's; they are an argument \<open>rnd\<close>.
\<close>

definition uuid4 :: "128 word \<Rightarrow> 128 word" where
  "uuid4 rnd =
     (((rnd AND NOT (push_bit 48 0xc000)) OR push_bit 48 0x8000)
        AND NOT (push_bit 64 0xf000)) OR push_bit 76 4"

definition hexdigit :: "nat \<Rightarrow> char" where
  "hexdigit n = ''0123456789abcdef'' ! n"

definition hex :: "128 word \<Rightarrow> string" where
  "hex u = map (\<lambda>i. hexdigit (unat (drop_bit (4 * (31 - i)) u AND 15))) [0..<32]"

definition new_paste_id :: "128 word \<Rightarrow> string" where
  "new_paste_id rnd = take 8 (hex (uuid4 rnd))"

definition is_lower_hex :: "char \<Rightarrow> bool" where
  "is_lower_hex c = (c \<in> set ''0123456789abcdef'')"

section \<open>Responses\<close>

text \<open>
  A request ends in a value or in a failure. \<open>RequestValidationError\<close> is what the
  framework answers (HTTP 422) when a required form field is missing, with the names of
  the missing fields; \<open>HTTPException\<close> is raised by a handler with its status and
  detail; an exception no handler catches (an error of the driver) is answered with
  HTTP 500.
\<close>

datatype failure =
    RequestValidationError "string list"
  | HTTPException nat string
  | UnhandledException db_error

fun status_code :: "failure \<Rightarrow> nat" where
  "status_code (RequestValidationError _) = 422"
| "status_code (HTTPException code _) = code"
| "status_code (UnhandledException _) = 500"

text \<open>The listings return \<^verbatim>\<open>{"id": ..., "title": ...}\<close> for each row.\<close>

record entry =
  entry_id :: string
  entry_title :: string

definition entry_of :: "paste \<Rightarrow> entry" where
  "entry_of r = \<lparr>entry_id = paste_id r, entry_title = title r\<rparr>"

section \<open>The handlers\<close>

text \<open>
  \<^verbatim>\<open>create_paste\<close>: one identifier from \<open>rnd\<close>, one reading \<open>now\<close> of the clock
  (\<^verbatim>\<open>datetime.utcnow()\<close>), one \<^verbatim>\<open>INSERT\<close>. The handler checks nothing and catches
  nothing: an error of the driver leaves it as an unhandled exception. On success the
  answer is \<^verbatim>\<open>{"url": f"/paste/{paste_id}"}\<close>, here the URL.
\<close>

definition create_paste ::
  "128 word \<Rightarrow> int \<Rightarrow> string \<Rightarrow> string \<Rightarrow> string \<Rightarrow> string \<Rightarrow> string \<Rightarrow> table
     \<Rightarrow> (failure + string) \<times> table" where
  "create_paste rnd now content' title' syntax' expires' visibility' db =
     (let pid = new_paste_id rnd;
          row = \<lparr>paste_id = pid, content = content', title = title',
                 syntax_hint = syntax', expires = expires', visibility = visibility',
                 created_at = now\<rparr>
      in case execute_insert row db of
           Inl e \<Rightarrow> (Inl (UnhandledException e), db)
         | Inr db' \<Rightarrow> (Inr (''/paste/'' @ pid), db'))"

text \<open>\<^verbatim>\<open>top_pastes\<close>: \<^verbatim>\<open>id\<close> and \<^verbatim>\<open>title\<close> of the first 10 rows by
  \<^verbatim>\<open>length(content)\<close>, longest first.\<close>

definition top_rows :: "table \<Rightarrow> table" where
  "top_rows db = limit 10 (order_by_desc (\<lambda>r. int (length (content r))) db)"

definition top_pastes :: "table \<Rightarrow> entry list" where
  "top_pastes db = map entry_of (top_rows db)"

text \<open>\<^verbatim>\<open>view_paste\<close>: the row with that key, handed to the template, or
  \<^verbatim>\<open>HTTPException(status_code=404, detail="Paste not found")\<close> when there is none. The
  lookup is not guarded either: an error of the driver leaves the handler as an
  unhandled exception. The template's context holds the seven columns of the row, so
  the row stands for the page.\<close>

definition view_paste :: "string \<Rightarrow> table \<Rightarrow> failure + paste" where
  "view_paste i db =
     (case fetch_one i db of
        Inl e \<Rightarrow> Inl (UnhandledException e)
      | Inr None \<Rightarrow> Inl (HTTPException 404 ''Paste not found'')
      | Inr (Some row) \<Rightarrow> Inr row)"

text \<open>\<^verbatim>\<open>recent_pastes\<close>: \<^verbatim>\<open>id\<close> and \<^verbatim>\<open>title\<close> of the first 10 rows by
  \<^verbatim>\<open>created_at\<close>, latest first.\<close>

definition recent_rows :: "table \<Rightarrow> table" where
  "recent_rows db = limit 10 (order_by_desc created_at db)"

definition recent_pastes :: "table \<Rightarrow> entry list" where
  "recent_pastes db = map entry_of (recent_rows db)"

text \<open>\<^verbatim>\<open>ping\<close> answers \<^verbatim>\<open>{"status": "alive"}\<close> and reads nothing.\<close>

definition ping :: string where
  "ping = ''alive''"

section \<open>The form layer of \<^verbatim>\<open>POST /api/paste\<close>\<close>

text \<open>
  The handler's parameters are declared \<^verbatim>\<open>content: str = Form(...)\<close> (required) and
  \<^verbatim>\<open>title: str = Form("Untitled Paste")\<close>, \<^verbatim>\<open>syntax: str = Form("none")\<close>,
  \<^verbatim>\<open>expires: str = Form("never")\<close>, \<^verbatim>\<open>visibility: str = Form("public")\<close> (with a
  default). FastAPI fills them from the parsed form body, a map from field names to
  values, before the handler runs (\<^verbatim>\<open>_get_multidict_value\<close> in
  \<^verbatim>\<open>fastapi/dependencies/utils.py\<close>, in outline):
  \<^verbatim>\<open>
    value = values.get(alias, None)
    if value is None or (isinstance(field.field_info, params.Form) and value == ""):
        if field.required: return            # nothing
        else: return deepcopy(field.default)
    return value
  \<close>
  So a \<^verbatim>\<open>Form\<close> field that is absent, or present with the empty string as its value,
  takes the parameter's default. A required field that is absent is a validation error,
  answered with HTTP 422, and the handler is not called. For a required field that is
  present and empty the releases of FastAPI differ: the older ones report it missing as
  well, the newer ones copy the form's own value for a field left without one and hand
  the empty string to the handler. \<^verbatim>\<open>main.py\<close> fixes no release, so which of the two
  holds is a parameter, \<open>empty_is_missing\<close>.
\<close>

type_synonym form = "string \<rightharpoonup> string"

definition form_required :: "bool \<Rightarrow> form \<Rightarrow> string \<Rightarrow> string option" where
  "form_required empty_is_missing form name =
     (case form name of
        None \<Rightarrow> None
      | Some v \<Rightarrow> if v = [] \<and> empty_is_missing then None else Some v)"

definition form_default :: "form \<Rightarrow> string \<Rightarrow> string \<Rightarrow> string" where
  "form_default form name dflt =
     (case form name of
        None \<Rightarrow> dflt
      | Some v \<Rightarrow> if v = [] then dflt else v)"

definition post_api_paste ::
  "bool \<Rightarrow> 128 word \<Rightarrow> int \<Rightarrow> form \<Rightarrow> table \<Rightarrow> (failure + string) \<times> table" where
  "post_api_paste empty_is_missing rnd now form db =
     (case form_required empty_is_missing form ''content'' of
        None \<Rightarrow> (Inl (RequestValidationError [''content'']), db)
      | Some c \<Rightarrow>
          create_paste rnd now c
            (form_default form ''title'' ''Untitled Paste'')
            (form_default form ''syntax'' ''none'')
            (form_default form ''expires'' ''never'')
            (form_default form ''visibility'' ''public'') db)"

text \<open>A form whose five fields, where given, hold no NUL: the forms whose values the
  engine accepts.\<close>

definition form_nul_free :: "form \<Rightarrow> bool" where
  "form_nul_free form =
     list_all (\<lambda>name. case form name of None \<Rightarrow> True | Some v \<Rightarrow> nul_free v)
       [''content'', ''title'', ''syntax'', ''expires'', ''visibility'']"

section \<open>Sequences of requests\<close>

text \<open>
  A request carries what the environment gives its handler: the random bytes and the
  clock reading of a creation. \<open>serve\<close> answers one request, \<open>run\<close> a sequence of them,
  each on the table the one before left. \<open>issued\<close> lists the identifiers the
  creations of a run returned (the URL without its prefix \<^verbatim>\<open>/paste/\<close>).
\<close>

datatype request =
    PostPaste "128 word" int form
  | GetTop
  | GetPaste string
  | GetRecent
  | GetPing

datatype response =
    Created string
  | Entries "entry list"
  | Page paste
  | Alive string
  | Failed failure

fun serve :: "bool \<Rightarrow> request \<Rightarrow> table \<Rightarrow> response \<times> table" where
  "serve e (PostPaste rnd now form) db =
     (case post_api_paste e rnd now form db of
        (Inl err, db') \<Rightarrow> (Failed err, db')
      | (Inr url, db') \<Rightarrow> (Created url, db'))"
| "serve e GetTop db = (Entries (top_pastes db), db)"
| "serve e (GetPaste i) db =
     (case view_paste i db of Inl err \<Rightarrow> (Failed err, db) | Inr row \<Rightarrow> (Page row, db))"
| "serve e GetRecent db = (Entries (recent_pastes db), db)"
| "serve e GetPing db = (Alive ping, db)"

fun run :: "bool \<Rightarrow> request list \<Rightarrow> table \<Rightarrow> response list \<times> table" where
  "run e [] db = ([], db)"
| "run e (q # qs) db =
     (case serve e q db of
        (r, db') \<Rightarrow> (case run e qs db' of (rs, db'') \<Rightarrow> (r # rs, db'')))"


section \<open>Tables that differ only in visibility\<close>

text \<open>Two tables differ only in visibility when they have the same rows in the same
  places but for the values of the \<^verbatim>\<open>visibility\<close> column.\<close>

definition differ_only_in_visibility :: "table \<Rightarrow> table \<Rightarrow> bool" where
  "differ_only_in_visibility db db' =
     list_all2 (\<lambda>r r'. r' = r\<lparr>visibility := visibility r'\<rparr>) db db'"

section \<open>A sample table\<close>

text \<open>
  Eleven pastes created one after the other, the \<open>n\<close>-th with a content of \<open>n\<close>
  characters at time \<open>n\<close>, and their entries in a listing: the table on which the
  theorems about the listings are tried.
\<close>

definition sample_paste :: "nat \<Rightarrow> paste" where
  "sample_paste n =
     \<lparr>paste_id = ''0000000'' @ [hexdigit n], content = replicate n CHR ''x'',
      title = ''paste '' @ [hexdigit n], syntax_hint = ''none'', expires = ''never'',
      visibility = ''public'', created_at = int n\<rparr>"

definition sample_entry :: "nat \<Rightarrow> entry" where
  "sample_entry n =
     \<lparr>entry_id = ''0000000'' @ [hexdigit n], entry_title = ''paste '' @ [hexdigit n]\<rparr>"

section \<open>The identifier is eight lowercase hexadecimal digits\<close>

lemma hexdigit_lower_hex: "n < 16 \<Longrightarrow> is_lower_hex (hexdigit n)"
  unfolding is_lower_hex_def hexdigit_def
  by (rule nth_mem) simp

lemma nibble_less_16: "unat ((w :: 128 word) AND 15) < 16"
proof -
  have "w AND 15 \<le> 15" by (rule word_and_le1)
  then have "unat (w AND 15) \<le> unat (15 :: 128 word)" by (simp add: word_le_nat_alt)
  then show ?thesis by simp
qed

lemma length_hex: "length (hex u) = 32"
  by (simp add: hex_def)

lemma hex_lower_hex: "list_all is_lower_hex (hex u)"
  by (simp add: hex_def list_all_iff hexdigit_lower_hex nibble_less_16)

lemma length_new_paste_id: "length (new_paste_id rnd) = 8"
  by (simp add: new_paste_id_def length_hex)

lemma new_paste_id_lower_hex: "list_all is_lower_hex (new_paste_id rnd)"
  unfolding new_paste_id_def list_all_iff
  using hex_lower_hex [of "uuid4 rnd"]
  by (auto simp: list_all_iff dest: in_set_takeD)

section \<open>What one request does to the table\<close>

lemma form_default_absent: "form name = None \<Longrightarrow> form_default form name d = d"
  by (simp add: form_default_def)

lemma form_default_empty: "form name = Some [] \<Longrightarrow> form_default form name d = d"
  by (simp add: form_default_def)

lemma form_default_given: "form name = Some v \<Longrightarrow> v \<noteq> [] \<Longrightarrow> form_default form name d = v"
  by (simp add: form_default_def)

lemma lower_hex_not_nul: "is_lower_hex c \<Longrightarrow> c \<noteq> CHR 0x00"
  by (auto simp: is_lower_hex_def)

lemma new_paste_id_nul_free: "nul_free (new_paste_id rnd)"
  using new_paste_id_lower_hex [of rnd]
  by (auto simp: nul_free_def list_all_iff dest: lower_hex_not_nul)

lemma form_nul_free_content: "form_nul_free form \<Longrightarrow> form ''content'' = Some c \<Longrightarrow> nul_free c"
  by (simp add: form_nul_free_def)

lemma form_nul_free_default:
  assumes "form_nul_free form" and "nul_free d"
    and "name \<in> {''title'', ''syntax'', ''expires'', ''visibility''}"
  shows "nul_free (form_default form name d)"
proof (cases "form name")
  case None
  with assms(2) show ?thesis by (simp add: form_default_def)
next
  case (Some v)
  with assms(1,3) have "nul_free v" by (auto simp: form_nul_free_def)
  with Some assms(2) show ?thesis by (simp add: form_default_def)
qed

lemma defaults_nul_free:
  "nul_free ''Untitled Paste''" "nul_free ''none''" "nul_free ''never''" "nul_free ''public''"
  by (simp_all add: nul_free_def)

lemma execute_insert_fresh:
  "row_nul_free row \<Longrightarrow> paste_id row \<notin> paste_id ` set db \<Longrightarrow>
   execute_insert row db = Inr (db @ [row])"
  by (simp add: execute_insert_def)


lemma execute_insert_cases:
  assumes "execute_insert row db = r"
  shows "(\<exists>err. r = Inl err) \<or>
         (r = Inr (db @ [row]) \<and> row_nul_free row \<and> paste_id row \<notin> paste_id ` set db)"
  using assms by (auto simp: execute_insert_def split: if_splits)

lemma create_paste_fresh:
  assumes "new_paste_id rnd \<notin> paste_id ` set db"
    and "nul_free c" "nul_free t" "nul_free s" "nul_free x" "nul_free v"
  shows "create_paste rnd now c t s x v db =
     (Inr (''/paste/'' @ new_paste_id rnd),
      db @ [\<lparr>paste_id = new_paste_id rnd, content = c, title = t, syntax_hint = s,
              expires = x, visibility = v, created_at = now\<rparr>])"
  using assms
  by (simp add: create_paste_def execute_insert_def Let_def row_nul_free_def
      new_paste_id_nul_free)


lemma create_paste_cases:
  assumes "create_paste rnd now c t s x v db = (r, db')"
  shows "((\<exists>err. r = Inl (UnhandledException err)) \<and> db' = db) \<or>
         (r = Inr (''/paste/'' @ new_paste_id rnd) \<and> new_paste_id rnd \<notin> paste_id ` set db \<and>
          db' = db @ [\<lparr>paste_id = new_paste_id rnd, content = c, title = t, syntax_hint = s,
              expires = x, visibility = v, created_at = now\<rparr>])"
  using assms
  by (auto simp: create_paste_def execute_insert_def Let_def split: if_splits)

lemma post_api_paste_cases:
  assumes "post_api_paste e rnd now form db = (r, db')"
  shows "(\<exists>err. r = Inl err \<and> db' = db) \<or>
         (\<exists>row. r = Inr (''/paste/'' @ new_paste_id rnd) \<and> db' = db @ [row] \<and>
            paste_id row = new_paste_id rnd \<and> new_paste_id rnd \<notin> paste_id ` set db)"
proof (cases "form_required e form ''content''")
  case None
  with assms show ?thesis by (auto simp: post_api_paste_def)
next
  case (Some c)
  with assms have "create_paste rnd now c
            (form_default form ''title'' ''Untitled Paste'')
            (form_default form ''syntax'' ''none'')
            (form_default form ''expires'' ''never'')
            (form_default form ''visibility'' ''public'') db = (r, db')"
    by (simp add: post_api_paste_def)
  from create_paste_cases [OF this] show ?thesis by auto
qed

lemma serve_cases:
  assumes "serve e q db = (r, db')"
  shows "(db' = db \<and> (\<forall>url. r \<noteq> Created url)) \<or>
         (\<exists>row. r = Created (''/paste/'' @ paste_id row) \<and> db' = db @ [row] \<and>
            paste_id row \<notin> paste_id ` set db)"
proof (cases q)
  case (PostPaste rnd now form)
  obtain x d where p: "post_api_paste e rnd now form db = (x, d)"
    by (cases "post_api_paste e rnd now form db")
  from post_api_paste_cases [OF p] assms PostPaste p show ?thesis by auto
next
  case GetTop with assms show ?thesis by auto
next
  case (GetPaste i) with assms show ?thesis by (auto split: sum.splits)
next
  case GetRecent with assms show ?thesis by auto
next
  case GetPing with assms show ?thesis by auto
qed




lemma run_extends:
  "run e qs db = (rs, db') \<Longrightarrow> \<exists>new. db' = db @ new"
proof (induction qs arbitrary: db rs db')
  case Nil
  then show ?case by simp
next
  case (Cons q qs)
  obtain r d where s: "serve e q db = (r, d)" by (cases "serve e q db")
  obtain rs' d' where t: "run e qs d = (rs', d')" by (cases "run e qs d")
  from Cons.prems s t have eq: "db' = d'" by auto
  from Cons.IH [OF t] obtain new where "d' = d @ new" by blast
  moreover from serve_cases [OF s] obtain new' where "d = db @ new'" by auto
  ultimately show ?case using eq by auto
qed

lemma run_distinct:
  "run e qs db = (rs, db') \<Longrightarrow> distinct (map paste_id db) \<Longrightarrow> distinct (map paste_id db')"
proof (induction qs arbitrary: db rs db')
  case Nil
  then show ?case by simp
next
  case (Cons q qs)
  obtain r d where s: "serve e q db = (r, d)" by (cases "serve e q db")
  obtain rs' d' where t: "run e qs d = (rs', d')" by (cases "run e qs d")
  from Cons.prems s t have eq: "db' = d'" by auto
  from serve_cases [OF s] Cons.prems(2) have "distinct (map paste_id d)" by auto
  from Cons.IH [OF t this] eq show ?case by simp
qed

lemma fetch_one_append:
  "i \<in> paste_id ` set db \<Longrightarrow> fetch_one i (db @ new) = fetch_one i db"
  by (induction db) (auto simp: fetch_one_def)

lemma fetch_one_new:
  "nul_free i \<Longrightarrow> i \<notin> paste_id ` set db \<Longrightarrow> paste_id row = i \<Longrightarrow>
   fetch_one i (db @ [row]) = Inr (Some row)"
  by (induction db) (auto simp: fetch_one_def)

lemma post_api_paste_success:
  assumes "post_api_paste e rnd now form db = (Inr url, db')"
  shows "url = ''/paste/'' @ new_paste_id rnd \<and> new_paste_id rnd \<notin> paste_id ` set db \<and>
         (\<exists>c. form ''content'' = Some c \<and>
            db' = db @ [\<lparr>paste_id = new_paste_id rnd, content = c,
              title = form_default form ''title'' ''Untitled Paste'',
              syntax_hint = form_default form ''syntax'' ''none'',
              expires = form_default form ''expires'' ''never'',
              visibility = form_default form ''visibility'' ''public'',
              created_at = now\<rparr>])"
proof (cases "form_required e form ''content''")
  case None
  with assms show ?thesis by (simp add: post_api_paste_def)
next
  case (Some c)
  then have c: "form ''content'' = Some c"
    by (auto simp: form_required_def split: option.splits if_splits)
  from Some assms have "create_paste rnd now c
            (form_default form ''title'' ''Untitled Paste'')
            (form_default form ''syntax'' ''none'')
            (form_default form ''expires'' ''never'')
            (form_default form ''visibility'' ''public'') db = (Inr url, db')"
    by (simp add: post_api_paste_def)
  from create_paste_cases [OF this] c show ?thesis by auto
qed

lemma form_default_spec:
  "(form name = None \<or> form name = Some [] \<longrightarrow> form_default form name d = d) \<and>
   (\<forall>v. form name = Some v \<and> v \<noteq> [] \<longrightarrow> form_default form name d = v)"
  by (simp add: form_default_def)

lemma post_api_paste_fresh:
  assumes "form_required e form ''content'' = Some c"
    and "new_paste_id rnd \<notin> paste_id ` set db"
    and "form_nul_free form"
  shows "post_api_paste e rnd now form db =
     (Inr (''/paste/'' @ new_paste_id rnd),
      db @ [\<lparr>paste_id = new_paste_id rnd, content = c,
              title = form_default form ''title'' ''Untitled Paste'',
              syntax_hint = form_default form ''syntax'' ''none'',
              expires = form_default form ''expires'' ''never'',
              visibility = form_default form ''visibility'' ''public'',
              created_at = now\<rparr>])"
proof -
  from assms(1) have "form ''content'' = Some c"
    by (auto simp: form_required_def split: option.splits if_splits)
  with assms(3) have "nul_free c" by (rule form_nul_free_content)
  moreover have "nul_free (form_default form ''title'' ''Untitled Paste'')"
    "nul_free (form_default form ''syntax'' ''none'')"
    "nul_free (form_default form ''expires'' ''never'')"
    "nul_free (form_default form ''visibility'' ''public'')"
    using assms(3) by (simp_all add: form_nul_free_default defaults_nul_free)
  ultimately show ?thesis
    using assms(1,2) by (simp add: post_api_paste_def create_paste_fresh)
qed


lemma post_api_paste_missing:
  "form_required e form ''content'' = None \<Longrightarrow>
   post_api_paste e rnd now form db = (Inl (RequestValidationError [''content'']), db)"
  by (simp add: post_api_paste_def)

section \<open>Ordered, limited queries\<close>

text \<open>
  What \<^verbatim>\<open>ORDER BY key DESC LIMIT n\<close> returns: rows of the table, \<open>n\<close> of them or all
  if there are fewer, in descending order of the key, none of the rows left out having
  a larger key than one returned. A list already in descending order is returned as it
  is, so every order an engine may give to rows with equal keys is the result for some
  scan order.
\<close>

lemma sorted_order_by_desc:
  "sorted_wrt (\<lambda>a b. key b \<le> key a) (order_by_desc key db)"
proof -
  have "sorted (map (\<lambda>r. - key r) (sort_key (\<lambda>r. - key r) db))"
    by (rule sorted_sort_key)
  then show ?thesis by (simp add: order_by_desc_def sorted_map)
qed

lemma set_order_by_desc: "set (order_by_desc key db) = set db"
  by (simp add: order_by_desc_def)

lemma length_order_by_desc: "length (order_by_desc key db) = length db"
  by (simp add: order_by_desc_def)

lemma order_by_desc_fixpoint:
  "sorted_wrt (\<lambda>a b. key b \<le> key a) res \<Longrightarrow> order_by_desc key res = res"
  unfolding order_by_desc_def
  by (rule sort_key_id_if_sorted) (simp add: sorted_map)

lemma order_by_desc_greatest_first:
  assumes "p \<in> set db" and "\<forall>q \<in> set db. q \<noteq> p \<longrightarrow> key q < key p"
  shows "\<exists>rest. order_by_desc key db = p # rest"
proof (cases "order_by_desc key db")
  case Nil
  with set_order_by_desc [of key db] assms(1) show ?thesis by simp
next
  case (Cons h rest)
  have "h = p"
  proof (rule ccontr)
    assume ne: "h \<noteq> p"
    from Cons set_order_by_desc [of key db] have "h \<in> set db" by auto
    with assms(2) ne have lt: "key h < key p" by blast
    from set_order_by_desc [of key db] assms(1) Cons ne have "p \<in> set rest" by auto
    moreover from sorted_order_by_desc [of key db] Cons
    have "\<forall>x \<in> set rest. key x \<le> key h" by simp
    ultimately have "key p \<le> key h" by blast
    with lt show False by simp
  qed
  with Cons show ?thesis by simp
qed

lemma limit_order_by_desc_cut:
  assumes "r \<in> set db" and "r \<notin> set (limit n (order_by_desc key db))"
    and "t \<in> set (limit n (order_by_desc key db))"
  shows "key r \<le> key t"
proof -
  let ?s = "order_by_desc key db"
  have "sorted_wrt (\<lambda>a b. key b \<le> key a) (take n ?s @ drop n ?s)"
    using sorted_order_by_desc [of key db] by simp
  then have cut: "\<forall>x \<in> set (take n ?s). \<forall>y \<in> set (drop n ?s). key y \<le> key x"
    unfolding sorted_wrt_append by blast
  have "set ?s = set (take n ?s) \<union> set (drop n ?s)"
    by (metis append_take_drop_id set_append)
  with assms(1) have "r \<in> set (take n ?s) \<union> set (drop n ?s)"
    by (simp add: set_order_by_desc)
  with assms(2) have "r \<in> set (drop n ?s)" by (simp add: limit_def)
  with cut assms(3) show ?thesis by (auto simp: limit_def)
qed

lemma limit_rows:
  "length (limit n (order_by_desc key db)) = min n (length db) \<and>
   set (limit n (order_by_desc key db)) \<subseteq> set db \<and>
   sorted_wrt (\<lambda>a b. key b \<le> key a) (limit n (order_by_desc key db))"
  using set_take_subset [of n "order_by_desc key db"]
  by (simp add: limit_def length_order_by_desc set_order_by_desc
      sorted_order_by_desc min.commute)

text \<open>Rows related pairwise, with equal keys, stay related pairwise when both tables
  are ordered and limited.\<close>

lemma insort_key_related:
  assumes "list_all2 R xs ys" and "R x y" and "\<And>a b. R a b \<Longrightarrow> f a = g b"
  shows "list_all2 R (insort_key f x xs) (insort_key g y ys)"
  using assms(1)
proof (induction rule: list_all2_induct)
  case Nil
  from assms(2) show ?case by simp
next
  case (Cons a xs b ys)
  from assms(3) [OF Cons.hyps(1)] assms(3) [OF assms(2)] Cons assms(2)
  show ?case by simp
qed

lemma sort_key_related:
  assumes "list_all2 R xs ys" and "\<And>a b. R a b \<Longrightarrow> f a = g b"
  shows "list_all2 R (sort_key f xs) (sort_key g ys)"
  using assms(1)
proof (induction rule: list_all2_induct)
  case Nil
  show ?case by simp
next
  case (Cons a xs b ys)
  from insort_key_related [OF Cons.IH Cons.hyps(1) assms(2)]
  show ?case by simp
qed

lemma map_related:
  assumes "list_all2 R xs ys" and "\<And>a b. R a b \<Longrightarrow> h a = h b"
  shows "map h xs = map h ys"
  using assms(1)
proof (induction rule: list_all2_induct)
  case Nil
  show ?case by simp
next
  case (Cons a xs b ys)
  from assms(2) [OF Cons.hyps(1)] Cons.IH show ?case by simp
qed

lemma listing_related:
  assumes "differ_only_in_visibility db db'"
    and "\<And>r v. key (r\<lparr>visibility := v\<rparr>) = key r"
  shows "map entry_of (limit n (order_by_desc key db)) =
         map entry_of (limit n (order_by_desc key db'))"
proof -
  let ?R = "\<lambda>r r'. r' = r\<lparr>visibility := visibility r'\<rparr>"
  have k: "- key a = - key b" if "?R a b" for a b
    using assms(2) [of "visibility b" a] that by simp
  from assms(1) have "list_all2 ?R db db'" by (simp add: differ_only_in_visibility_def)
  then have "list_all2 ?R (sort_key (\<lambda>r. - key r) db) (sort_key (\<lambda>r. - key r) db')"
    using k by (rule sort_key_related)
  then have "list_all2 ?R (limit n (order_by_desc key db)) (limit n (order_by_desc key db'))"
    unfolding limit_def order_by_desc_def by (rule list_all2_takeI)
  moreover have "entry_of a = entry_of b" if "?R a b" for a b
  proof -
    from that have "paste_id b = paste_id a \<and> title b = title a"
      by (metis paste.select_convs(1) paste.select_convs(3) paste.surjective paste.update_convs(6))
    then show ?thesis by (simp add: entry_of_def)
  qed
  ultimately show ?thesis by (rule map_related)
qed

section \<open>Evaluating the handlers\<close>

text \<open>The definitions a concrete run unfolds, and the identifier of the all-zero random
  bytes.\<close>

lemmas handler_defs =
  post_api_paste_def form_required_def form_default_def create_paste_def
  execute_insert_def Let_def top_pastes_def top_rows_def recent_pastes_def
  recent_rows_def limit_def order_by_desc_def entry_of_def view_paste_def fetch_one_def
  nul_free_def row_nul_free_def form_nul_free_def

lemma new_paste_id_0: "new_paste_id 0 = ''00000000''"
  by (simp add: new_paste_id_def hex_def uuid4_def hexdigit_def upt_rec)

section \<open>Claims\<close>

text \<open>
  C1 (as amended). Take a creation request that gives a non-empty \<^verbatim>\<open>content\<close> and
  holds no NUL character in any of its five fields, an identifier drawn that is not yet
  in the table, and a clock reading \<open>now\<close> taken
  between the start \<open>t_start\<close> and the end \<open>t_end\<close> of the call. Then
  \<^verbatim>\<open>POST /api/paste\<close> succeeds with the URL of the identifier, and
  \<^verbatim>\<open>GET /paste/{id}\<close> on that identifier gives a row whose content is the content
  given; whose \<^verbatim>\<open>title\<close>, \<^verbatim>\<open>syntax\<close>, \<^verbatim>\<open>expires\<close> and \<^verbatim>\<open>visibility\<close> are each the
  value given where a non-empty one is given, and the default (\<^verbatim>\<open>Untitled Paste\<close>,
  \<^verbatim>\<open>none\<close>, \<^verbatim>\<open>never\<close>, \<^verbatim>\<open>public\<close>) where the field is omitted or given as the empty
  string; and whose \<^verbatim>\<open>created_at\<close> is \<open>now\<close>, so between \<open>t_start\<close> and \<open>t_end\<close>.
\<close>

theorem create_then_view:
  assumes "form ''content'' = Some c" and "c \<noteq> []"
    and "form_nul_free form"
    and "new_paste_id rnd \<notin> paste_id ` set db"
    and "t_start \<le> now" and "now \<le> t_end"
  shows "\<exists>db' row.
     post_api_paste e rnd now form db = (Inr (''/paste/'' @ new_paste_id rnd), db') \<and>
     view_paste (new_paste_id rnd) db' = Inr row \<and>
     paste_id row = new_paste_id rnd \<and> content row = c \<and>
     (form ''title'' = None \<or> form ''title'' = Some [] \<longrightarrow> title row = ''Untitled Paste'') \<and>
     (\<forall>v. form ''title'' = Some v \<and> v \<noteq> [] \<longrightarrow> title row = v) \<and>
     (form ''syntax'' = None \<or> form ''syntax'' = Some [] \<longrightarrow> syntax_hint row = ''none'') \<and>
     (\<forall>v. form ''syntax'' = Some v \<and> v \<noteq> [] \<longrightarrow> syntax_hint row = v) \<and>
     (form ''expires'' = None \<or> form ''expires'' = Some [] \<longrightarrow> expires row = ''never'') \<and>
     (\<forall>v. form ''expires'' = Some v \<and> v \<noteq> [] \<longrightarrow> expires row = v) \<and>
     (form ''visibility'' = None \<or> form ''visibility'' = Some [] \<longrightarrow>
        visibility row = ''public'') \<and>
     (\<forall>v. form ''visibility'' = Some v \<and> v \<noteq> [] \<longrightarrow> visibility row = v) \<and>
     created_at row = now \<and> t_start \<le> created_at row \<and> created_at row \<le> t_end"
proof -
  define row where "row = \<lparr>paste_id = new_paste_id rnd, content = c,
              title = form_default form ''title'' ''Untitled Paste'',
              syntax_hint = form_default form ''syntax'' ''none'',
              expires = form_default form ''expires'' ''never'',
              visibility = form_default form ''visibility'' ''public'',
              created_at = now\<rparr>"
  from assms(1,2) have "form_required e form ''content'' = Some c"
    by (simp add: form_required_def)
  from post_api_paste_fresh [OF this assms(4,3)]
  have p: "post_api_paste e rnd now form db = (Inr (''/paste/'' @ new_paste_id rnd), db @ [row])"
    by (simp add: row_def)
  have "fetch_one (new_paste_id rnd) (db @ [row]) = Inr (Some row)"
    using assms(4) by (intro fetch_one_new) (simp_all add: row_def new_paste_id_nul_free)
  then have v: "view_paste (new_paste_id rnd) (db @ [row]) = Inr row"
    by (simp add: view_paste_def)
  have f: "paste_id row = new_paste_id rnd \<and> content row = c \<and>
     (form ''title'' = None \<or> form ''title'' = Some [] \<longrightarrow> title row = ''Untitled Paste'') \<and>
     (\<forall>v. form ''title'' = Some v \<and> v \<noteq> [] \<longrightarrow> title row = v) \<and>
     (form ''syntax'' = None \<or> form ''syntax'' = Some [] \<longrightarrow> syntax_hint row = ''none'') \<and>
     (\<forall>v. form ''syntax'' = Some v \<and> v \<noteq> [] \<longrightarrow> syntax_hint row = v) \<and>
     (form ''expires'' = None \<or> form ''expires'' = Some [] \<longrightarrow> expires row = ''never'') \<and>
     (\<forall>v. form ''expires'' = Some v \<and> v \<noteq> [] \<longrightarrow> expires row = v) \<and>
     (form ''visibility'' = None \<or> form ''visibility'' = Some [] \<longrightarrow>
        visibility row = ''public'') \<and>
     (\<forall>v. form ''visibility'' = Some v \<and> v \<noteq> [] \<longrightarrow> visibility row = v) \<and>
     created_at row = now \<and> t_start \<le> created_at row \<and> created_at row \<le> t_end"
    using form_default_spec [of form "''title''" "''Untitled Paste''"]
      form_default_spec [of form "''syntax''" "''none''"]
      form_default_spec [of form "''expires''" "''never''"]
      form_default_spec [of form "''visibility''" "''public''"] assms(5,6)
    by (simp add: row_def)
  from p v f show ?thesis by blast
qed

theorem create_then_view_witness:
  "post_api_paste False 0 5 [''content'' \<mapsto> ''hello world''] [] =
     (Inr ''/paste/00000000'',
      [\<lparr>paste_id = ''00000000'', content = ''hello world'', title = ''Untitled Paste'',
        syntax_hint = ''none'', expires = ''never'', visibility = ''public'',
        created_at = 5\<rparr>]) \<and>
   view_paste ''00000000''
      [\<lparr>paste_id = ''00000000'', content = ''hello world'', title = ''Untitled Paste'',
        syntax_hint = ''none'', expires = ''never'', visibility = ''public'',
        created_at = 5\<rparr>] =
     Inr \<lparr>paste_id = ''00000000'', content = ''hello world'', title = ''Untitled Paste'',
        syntax_hint = ''none'', expires = ''never'', visibility = ''public'',
        created_at = 5\<rparr> \<and>
   post_api_paste False 0 5
      [''content'' \<mapsto> ''print(1)'', ''title'' \<mapsto> ''demo'', ''syntax'' \<mapsto> ''python'', ''expires'' \<mapsto> ''1d'', ''visibility'' \<mapsto> ''private''] [] =
     (Inr ''/paste/00000000'',
      [\<lparr>paste_id = ''00000000'', content = ''print(1)'', title = ''demo'',
        syntax_hint = ''python'', expires = ''1d'', visibility = ''private'',
        created_at = 5\<rparr>]) \<and>
   view_paste ''00000000''
      [\<lparr>paste_id = ''00000000'', content = ''print(1)'', title = ''demo'',
        syntax_hint = ''python'', expires = ''1d'', visibility = ''private'',
        created_at = 5\<rparr>] =
     Inr \<lparr>paste_id = ''00000000'', content = ''print(1)'', title = ''demo'',
        syntax_hint = ''python'', expires = ''1d'', visibility = ''private'',
        created_at = 5\<rparr> \<and>
   (4::int) \<le> 5 \<and> (5::int) \<le> 6"
proof -
  have h: "[''content'' \<mapsto> ''hello world''] ''content'' = Some ''hello world'' \<and>
      [''content'' \<mapsto> ''print(1)'', ''title'' \<mapsto> ''demo'', ''syntax'' \<mapsto> ''python'', ''expires'' \<mapsto> ''1d'', ''visibility'' \<mapsto> ''private''] ''content'' = Some ''print(1)'' \<and>
      ''hello world'' \<noteq> [] \<and> ''print(1)'' \<noteq> [] \<and>
      form_nul_free [''content'' \<mapsto> ''hello world''] \<and>
      form_nul_free [''content'' \<mapsto> ''print(1)'', ''title'' \<mapsto> ''demo'',
        ''syntax'' \<mapsto> ''python'', ''expires'' \<mapsto> ''1d'', ''visibility'' \<mapsto> ''private''] \<and>
      new_paste_id 0 \<notin> paste_id ` set [] \<and> (4::int) \<le> 5 \<and> (5::int) \<le> 6"
    by (simp add: form_nul_free_def nul_free_def)
  have v: "view_paste ''00000000''
      [\<lparr>paste_id = ''00000000'', content = ''hello world'', title = ''Untitled Paste'',
        syntax_hint = ''none'', expires = ''never'', visibility = ''public'',
        created_at = 5\<rparr>] =
     Inr \<lparr>paste_id = ''00000000'', content = ''hello world'', title = ''Untitled Paste'',
        syntax_hint = ''none'', expires = ''never'', visibility = ''public'',
        created_at = 5\<rparr> \<and>
     view_paste ''00000000''
      [\<lparr>paste_id = ''00000000'', content = ''print(1)'', title = ''demo'',
        syntax_hint = ''python'', expires = ''1d'', visibility = ''private'',
        created_at = 5\<rparr>] =
     Inr \<lparr>paste_id = ''00000000'', content = ''print(1)'', title = ''demo'',
        syntax_hint = ''python'', expires = ''1d'', visibility = ''private'',
        created_at = 5\<rparr>"
    by (simp add: handler_defs)
  have p: "post_api_paste False 0 5 [''content'' \<mapsto> ''hello world''] [] =
     (Inr ''/paste/00000000'',
      [\<lparr>paste_id = ''00000000'', content = ''hello world'', title = ''Untitled Paste'',
        syntax_hint = ''none'', expires = ''never'', visibility = ''public'',
        created_at = 5\<rparr>]) \<and>
     post_api_paste False 0 5
      [''content'' \<mapsto> ''print(1)'', ''title'' \<mapsto> ''demo'', ''syntax'' \<mapsto> ''python'', ''expires'' \<mapsto> ''1d'', ''visibility'' \<mapsto> ''private''] [] =
     (Inr ''/paste/00000000'',
      [\<lparr>paste_id = ''00000000'', content = ''print(1)'', title = ''demo'',
        syntax_hint = ''python'', expires = ''1d'', visibility = ''private'',
        created_at = 5\<rparr>])"
    by (simp add: handler_defs new_paste_id_0)
  from create_then_view [of "[''content'' \<mapsto> ''hello world'']" "''hello world''" 0 "[]" 4 5 6 False]
    create_then_view [of "[''content'' \<mapsto> ''print(1)'', ''title'' \<mapsto> ''demo'', ''syntax'' \<mapsto> ''python'', ''expires'' \<mapsto> ''1d'', ''visibility'' \<mapsto> ''private'']" "''print(1)''" 0 "[]" 4 5 6 False]
    h v p show ?thesis by simp
qed

text \<open>
  C1 as stated, with the fields equal to the inputs given and the defaults for omitted
  fields only, fails: a \<^verbatim>\<open>visibility\<close> given as the empty string is viewed as
  \<^verbatim>\<open>public\<close>.
\<close>

theorem viewed_visibility_not_as_supplied:
  "post_api_paste False 0 5 [''content'' \<mapsto> ''hello world'', ''visibility'' \<mapsto> ''''] [] =
     (Inr ''/paste/00000000'',
      [\<lparr>paste_id = ''00000000'', content = ''hello world'', title = ''Untitled Paste'',
        syntax_hint = ''none'', expires = ''never'', visibility = ''public'',
        created_at = 5\<rparr>]) \<and>
   view_paste ''00000000''
      [\<lparr>paste_id = ''00000000'', content = ''hello world'', title = ''Untitled Paste'',
        syntax_hint = ''none'', expires = ''never'', visibility = ''public'',
        created_at = 5\<rparr>] =
     Inr \<lparr>paste_id = ''00000000'', content = ''hello world'', title = ''Untitled Paste'',
        syntax_hint = ''none'', expires = ''never'', visibility = ''public'',
        created_at = 5\<rparr> \<and>
   [''content'' \<mapsto> ''hello world'', ''visibility'' \<mapsto> ''''] ''visibility'' = Some [] \<and>
   visibility \<lparr>paste_id = ''00000000'', content = ''hello world'', title = ''Untitled Paste'',
        syntax_hint = ''none'', expires = ''never'', visibility = ''public'',
        created_at = 5\<rparr> \<noteq> []"
  by (simp add: handler_defs new_paste_id_0)

text \<open>
  C2 (as amended). A creation request with no \<^verbatim>\<open>content\<close> field fails with the
  framework's validation error (HTTP 422) and the table is as it was. A request whose
  \<^verbatim>\<open>content\<close> is the empty string fails the same way where the form layer counts an
  empty required field as missing; the handler checks nothing itself, so where the form
  layer hands the empty string on, a paste with empty content is stored (when its
  identifier is not yet in the table and no other field holds a NUL character).
\<close>

theorem missing_content_rejected:
  "(form ''content'' = None \<longrightarrow>
      post_api_paste e rnd now form db = (Inl (RequestValidationError [''content'']), db)) \<and>
   (form' ''content'' = Some [] \<longrightarrow>
      post_api_paste True rnd now form' db = (Inl (RequestValidationError [''content'']), db)) \<and>
   (form' ''content'' = Some [] \<and> form_nul_free form' \<and>
    new_paste_id rnd \<notin> paste_id ` set db \<longrightarrow>
      (\<exists>row. post_api_paste False rnd now form' db =
          (Inr (''/paste/'' @ new_paste_id rnd), db @ [row]) \<and> content row = [])) \<and>
   (nul_free t \<and> nul_free s \<and> nul_free x \<and> nul_free v \<and>
    new_paste_id rnd \<notin> paste_id ` set db \<longrightarrow>
      (\<exists>row. create_paste rnd now [] t s x v db =
          (Inr (''/paste/'' @ new_paste_id rnd), db @ [row]) \<and> content row = [])) \<and>
   status_code (RequestValidationError [''content'']) = 422"
proof -
  have a: "post_api_paste e rnd now form db = (Inl (RequestValidationError [''content'']), db)"
    if "form ''content'' = None"
    using that by (intro post_api_paste_missing) (simp add: form_required_def)
  have b: "post_api_paste True rnd now form' db =
      (Inl (RequestValidationError [''content'']), db)"
    if "form' ''content'' = Some []"
    using that by (intro post_api_paste_missing) (simp add: form_required_def)
  have c: "\<exists>row. post_api_paste False rnd now form' db =
          (Inr (''/paste/'' @ new_paste_id rnd), db @ [row]) \<and> content row = []"
    if "form' ''content'' = Some []" "form_nul_free form'"
      "new_paste_id rnd \<notin> paste_id ` set db"
  proof -
    from that(1) have "form_required False form' ''content'' = Some []"
      by (simp add: form_required_def)
    from post_api_paste_fresh [OF this that(3,2)] show ?thesis by simp
  qed
  have d: "\<exists>row. create_paste rnd now [] t s x v db =
          (Inr (''/paste/'' @ new_paste_id rnd), db @ [row]) \<and> content row = []"
    if "nul_free t" "nul_free s" "nul_free x" "nul_free v"
      "new_paste_id rnd \<notin> paste_id ` set db"
    using create_paste_fresh [OF that(5) _ that(1-4), of "[]"] by (simp add: nul_free_def)
  from a b c d show ?thesis by simp
qed

theorem missing_content_rejected_witness:
  "Map.empty ''content'' = (None :: string option) \<and>
   [''content'' \<mapsto> ''''] ''content'' = Some [] \<and>
   post_api_paste False 0 5 Map.empty [] = (Inl (RequestValidationError [''content'']), []) \<and>
   post_api_paste True 0 5 [''content'' \<mapsto> ''''] [] =
     (Inl (RequestValidationError [''content'']), []) \<and>
   (\<exists>row. post_api_paste False 0 5 [''content'' \<mapsto> ''''] [] =
      (Inr (''/paste/'' @ new_paste_id 0), [row]) \<and> content row = [])"
proof -
  have h: "Map.empty ''content'' = (None :: string option) \<and>
      [''content'' \<mapsto> ''''] ''content'' = Some [] \<and> form_nul_free [''content'' \<mapsto> ''''] \<and>
      nul_free ''Untitled Paste'' \<and> nul_free ''none'' \<and> nul_free ''never'' \<and>
      nul_free ''public'' \<and> new_paste_id 0 \<notin> paste_id ` set []"
    by (simp add: form_nul_free_def nul_free_def)
  from missing_content_rejected [of Map.empty False 0 5 "[]" "[''content'' \<mapsto> '''']"
      "''Untitled Paste''" "''none''" "''never''" "''public''"] h
  show ?thesis by simp
qed

text \<open>
  C2 as stated, with every empty content rejected, fails: where the form layer hands an
  empty \<^verbatim>\<open>content\<close> on, the creation succeeds and the paste is stored.
\<close>

theorem empty_content_is_stored:
  "post_api_paste False 0 5 [''content'' \<mapsto> '''', ''title'' \<mapsto> ''no text''] [] =
     (Inr ''/paste/00000000'',
      [\<lparr>paste_id = ''00000000'', content = '''', title = ''no text'',
        syntax_hint = ''none'', expires = ''never'', visibility = ''public'',
        created_at = 5\<rparr>])"
  by (simp add: handler_defs new_paste_id_0)

text \<open>
  C3. On every table \<^verbatim>\<open>GET /api/top\<close> returns at most 10 entries (10, or as many as
  there are rows), each the \<^verbatim>\<open>id\<close> and \<^verbatim>\<open>title\<close> of a row of the table and nothing
  else of it, in descending order of the length of the rows' content; no row left out
  has a longer content than a row returned; and a row whose content is strictly longer
  than that of every other row comes first, wherever it stands in the table.
\<close>

theorem top_pastes_longest_first:
  "length (top_pastes db) = min 10 (length db) \<and> length (top_pastes db) \<le> 10 \<and>
   top_pastes db = map entry_of (top_rows db) \<and>
   set (top_rows db) \<subseteq> set db \<and>
   sorted_wrt (\<lambda>a b. length (content b) \<le> length (content a)) (top_rows db) \<and>
   (\<forall>r \<in> set db. \<forall>t \<in> set (top_rows db).
      r \<notin> set (top_rows db) \<longrightarrow> length (content r) \<le> length (content t)) \<and>
   (p \<in> set db \<and> (\<forall>q \<in> set db. q \<noteq> p \<longrightarrow> length (content q) < length (content p))
      \<longrightarrow> (\<exists>rest. top_pastes db = entry_of p # rest))"
proof -
  let ?key = "\<lambda>r. int (length (content r))"
  from limit_rows [of 10 ?key db]
  have rows: "length (top_rows db) = min 10 (length db)" "set (top_rows db) \<subseteq> set db"
    "sorted_wrt (\<lambda>a b. length (content b) \<le> length (content a)) (top_rows db)"
    by (simp_all add: top_rows_def)
  have cut: "length (content r) \<le> length (content t)"
    if "r \<in> set db" "t \<in> set (top_rows db)" "r \<notin> set (top_rows db)" for r t
    using limit_order_by_desc_cut [of r db 10 ?key t] that by (simp add: top_rows_def)
  have first: "\<exists>rest. top_pastes db = entry_of p # rest"
    if "p \<in> set db" "\<forall>q \<in> set db. q \<noteq> p \<longrightarrow> length (content q) < length (content p)"
  proof -
    from that have "\<exists>rest. order_by_desc ?key db = p # rest"
      by (intro order_by_desc_greatest_first) simp_all
    then obtain rest where "order_by_desc ?key db = p # rest" by blast
    then show ?thesis by (simp add: top_pastes_def top_rows_def limit_def)
  qed
  from rows cut first show ?thesis by (simp add: top_pastes_def)
qed

theorem top_pastes_longest_first_witness:
  "sample_paste 11 \<in> set (map sample_paste [1..<12]) \<and>
   sample_paste 1 \<in> set (map sample_paste [1..<12]) \<and>
   sample_paste 1 \<notin> set (top_rows (map sample_paste [1..<12])) \<and>
   top_pastes (map sample_paste [1..<12]) = map sample_entry (rev [2..<12]) \<and>
   length (top_pastes (map sample_paste [1..<12])) = 10 \<and>
   (\<exists>rest. top_pastes (map sample_paste [1..<12]) = sample_entry 11 # rest)"
proof -
  let ?db = "map sample_paste [1..<12]"
  have h: "sample_paste 11 \<in> set ?db \<and>
     (\<forall>q \<in> set ?db. q \<noteq> sample_paste 11 \<longrightarrow>
        length (content q) < length (content (sample_paste 11)))"
    by code_simp
  have o: "sample_paste 1 \<in> set ?db \<and> sample_paste 1 \<notin> set (top_rows ?db)"
    by code_simp
  have t: "top_pastes ?db = map sample_entry (rev [2..<12])"
    by code_simp
  have e: "entry_of (sample_paste 11) = sample_entry 11"
    by code_simp
  from top_pastes_longest_first [of ?db "sample_paste 11"] h o t e show ?thesis
    by simp
qed

text \<open>
  C4. On every table \<^verbatim>\<open>GET /api/recent\<close> returns at most 10 entries (10, or as many as
  there are rows), each the \<^verbatim>\<open>id\<close> and \<^verbatim>\<open>title\<close> of a row of the table, in descending
  order of \<^verbatim>\<open>created_at\<close>; no row left out is later than a row returned; a row
  strictly later than every other row comes first; and after a creation whose clock
  reading is later than the \<^verbatim>\<open>created_at\<close> of every row already there, the new paste
  is the first entry.
\<close>

theorem recent_pastes_latest_first:
  "length (recent_pastes db) = min 10 (length db) \<and> length (recent_pastes db) \<le> 10 \<and>
   recent_pastes db = map entry_of (recent_rows db) \<and>
   set (recent_rows db) \<subseteq> set db \<and>
   sorted_wrt (\<lambda>a b. created_at b \<le> created_at a) (recent_rows db) \<and>
   (\<forall>r \<in> set db. \<forall>t \<in> set (recent_rows db).
      r \<notin> set (recent_rows db) \<longrightarrow> created_at r \<le> created_at t) \<and>
   (p \<in> set db \<and> (\<forall>q \<in> set db. q \<noteq> p \<longrightarrow> created_at q < created_at p)
      \<longrightarrow> (\<exists>rest. recent_pastes db = entry_of p # rest)) \<and>
   (post_api_paste e rnd now form db = (Inr url, db') \<and> (\<forall>q \<in> set db. created_at q < now)
      \<longrightarrow> (\<exists>row rest. db' = db @ [row] \<and> url = ''/paste/'' @ paste_id row \<and>
            created_at row = now \<and> recent_pastes db' = entry_of row # rest))"
proof -
  from limit_rows [of 10 created_at db]
  have rows: "length (recent_rows db) = min 10 (length db)" "set (recent_rows db) \<subseteq> set db"
    "sorted_wrt (\<lambda>a b. created_at b \<le> created_at a) (recent_rows db)"
    by (simp_all add: recent_rows_def)
  have cut: "created_at r \<le> created_at t"
    if "r \<in> set db" "t \<in> set (recent_rows db)" "r \<notin> set (recent_rows db)" for r t
    using limit_order_by_desc_cut [of r db 10 created_at t] that by (simp add: recent_rows_def)
  have first: "\<exists>rest. recent_pastes t = entry_of p # rest"
    if "p \<in> set t" "\<forall>q \<in> set t. q \<noteq> p \<longrightarrow> created_at q < created_at p" for t p
  proof -
    from that have "\<exists>rest. order_by_desc created_at t = p # rest"
      by (rule order_by_desc_greatest_first)
    then obtain rest where "order_by_desc created_at t = p # rest" by blast
    then show ?thesis by (simp add: recent_pastes_def recent_rows_def limit_def)
  qed
  have inserted: "\<exists>row rest. db' = db @ [row] \<and> url = ''/paste/'' @ paste_id row \<and>
            created_at row = now \<and> recent_pastes db' = entry_of row # rest"
    if ok: "post_api_paste e rnd now form db = (Inr url, db')"
      and late: "\<forall>q \<in> set db. created_at q < now"
  proof -
    from post_api_paste_success [OF ok] obtain c where
      "url = ''/paste/'' @ new_paste_id rnd"
      "db' = db @ [\<lparr>paste_id = new_paste_id rnd, content = c,
              title = form_default form ''title'' ''Untitled Paste'',
              syntax_hint = form_default form ''syntax'' ''none'',
              expires = form_default form ''expires'' ''never'',
              visibility = form_default form ''visibility'' ''public'',
              created_at = now\<rparr>]" by blast
    then have "\<exists>row. db' = db @ [row] \<and> url = ''/paste/'' @ paste_id row \<and>
        created_at row = now" by simp
    then obtain row where
      row: "db' = db @ [row]" "url = ''/paste/'' @ paste_id row" "created_at row = now"
      by blast
    with late have "row \<in> set db'"
      "\<forall>q \<in> set db'. q \<noteq> row \<longrightarrow> created_at q < created_at row"
      by auto
    from first [OF this] row show ?thesis by blast
  qed
  from rows cut first [of p db] inserted show ?thesis by (simp add: recent_pastes_def)
qed

theorem recent_pastes_latest_first_witness:
  "post_api_paste True 0 12 [''content'' \<mapsto> ''twelfth''] (map sample_paste [1..<12]) =
     (Inr ''/paste/00000000'',
      map sample_paste [1..<12] @
      [\<lparr>paste_id = ''00000000'', content = ''twelfth'', title = ''Untitled Paste'',
        syntax_hint = ''none'', expires = ''never'', visibility = ''public'',
        created_at = 12\<rparr>]) \<and>
   sample_paste 1 \<in> set (map sample_paste [1..<12]) \<and>
   sample_paste 1 \<notin> set (recent_rows (map sample_paste [1..<12])) \<and>
   recent_pastes (map sample_paste [1..<12]) = map sample_entry (rev [2..<12]) \<and>
   (\<exists>rest. recent_pastes (map sample_paste [1..<12]) = sample_entry 11 # rest) \<and>
   (\<exists>rest. recent_pastes (map sample_paste [1..<12] @
      [\<lparr>paste_id = ''00000000'', content = ''twelfth'', title = ''Untitled Paste'',
        syntax_hint = ''none'', expires = ''never'', visibility = ''public'',
        created_at = 12\<rparr>]) =
      \<lparr>entry_id = ''00000000'', entry_title = ''Untitled Paste''\<rparr> # rest)"
proof -
  let ?db = "map sample_paste [1..<12]"
  let ?new = "\<lparr>paste_id = ''00000000'', content = ''twelfth'', title = ''Untitled Paste'',
        syntax_hint = ''none'', expires = ''never'', visibility = ''public'',
        created_at = 12\<rparr>"
  have h: "sample_paste 11 \<in> set ?db \<and>
     (\<forall>q \<in> set ?db. q \<noteq> sample_paste 11 \<longrightarrow> created_at q < created_at (sample_paste 11))"
    by code_simp
  have i: "post_api_paste True 0 12 [''content'' \<mapsto> ''twelfth''] ?db =
      (Inr ''/paste/00000000'', ?db @ [?new]) \<and> (\<forall>q \<in> set ?db. created_at q < 12)"
    by code_simp
  have o: "sample_paste 1 \<in> set ?db \<and> sample_paste 1 \<notin> set (recent_rows ?db)"
    by code_simp
  have t: "recent_pastes ?db = map sample_entry (rev [2..<12])"
    by code_simp
  have e: "entry_of (sample_paste 11) = sample_entry 11 \<and>
     entry_of ?new = \<lparr>entry_id = ''00000000'', entry_title = ''Untitled Paste''\<rparr>"
    by code_simp
  from recent_pastes_latest_first [of ?db "sample_paste 11" True 0 12
      "[''content'' \<mapsto> ''twelfth'']" "''/paste/00000000''" "?db @ [?new]"]
    h i
  have "(\<exists>rest. recent_pastes ?db = entry_of (sample_paste 11) # rest) \<and>
    (\<exists>row rest. ?db @ [?new] = ?db @ [row] \<and> recent_pastes (?db @ [?new]) = entry_of row # rest)"
    by blast
  with e have "(\<exists>rest. recent_pastes ?db = sample_entry 11 # rest) \<and>
    (\<exists>rest. recent_pastes (?db @ [?new]) =
       \<lparr>entry_id = ''00000000'', entry_title = ''Untitled Paste''\<rparr> # rest)"
    by auto
  with i o t show ?thesis by simp
qed







text \<open>
  C7. Serve any sequence of requests on any table. Every row of the table before is a
  row of the table after, unchanged and at the same place (the table only grows at its
  end); viewing the identifier of such a row gives the same page after as before; and
  if no two rows shared an identifier before, none do after.
\<close>

theorem records_never_change:
  assumes "run e qs db = (rs, db')"
  shows "take (length db) db' = db \<and>
         (\<forall>p \<in> set db. p \<in> set db') \<and>
         (\<forall>p \<in> set db. view_paste (paste_id p) db' = view_paste (paste_id p) db) \<and>
         (distinct (map paste_id db) \<longrightarrow> distinct (map paste_id db'))"
proof -
  from run_extends [OF assms] obtain new where ext: "db' = db @ new" by blast
  have "view_paste (paste_id p) db' = view_paste (paste_id p) db" if "p \<in> set db" for p
    using that ext by (simp add: view_paste_def fetch_one_append)
  moreover have "distinct (map paste_id db')" if "distinct (map paste_id db)"
    using run_distinct [OF assms that] .
  ultimately show ?thesis using ext by simp
qed

theorem records_never_change_witness:
  "run False [PostPaste 0 7 [''content'' \<mapsto> ''second''], GetPaste ''0000000a''] 
      [\<lparr>paste_id = ''0000000a'', content = ''first'', title = ''t'', syntax_hint = ''none'',
        expires = ''never'', visibility = ''private'', created_at = 5\<rparr>] =
     ([Created ''/paste/00000000'',
       Page \<lparr>paste_id = ''0000000a'', content = ''first'', title = ''t'',
         syntax_hint = ''none'', expires = ''never'', visibility = ''private'',
         created_at = 5\<rparr>],
      [\<lparr>paste_id = ''0000000a'', content = ''first'', title = ''t'', syntax_hint = ''none'',
        expires = ''never'', visibility = ''private'', created_at = 5\<rparr>,
       \<lparr>paste_id = ''00000000'', content = ''second'', title = ''Untitled Paste'',
        syntax_hint = ''none'', expires = ''never'', visibility = ''public'',
        created_at = 7\<rparr>]) \<and>
   view_paste ''0000000a''
      [\<lparr>paste_id = ''0000000a'', content = ''first'', title = ''t'', syntax_hint = ''none'',
        expires = ''never'', visibility = ''private'', created_at = 5\<rparr>,
       \<lparr>paste_id = ''00000000'', content = ''second'', title = ''Untitled Paste'',
        syntax_hint = ''none'', expires = ''never'', visibility = ''public'',
        created_at = 7\<rparr>] =
   view_paste ''0000000a''
      [\<lparr>paste_id = ''0000000a'', content = ''first'', title = ''t'', syntax_hint = ''none'',
        expires = ''never'', visibility = ''private'', created_at = 5\<rparr>] \<and>
   distinct (map paste_id
      [\<lparr>paste_id = ''0000000a'', content = ''first'', title = ''t'', syntax_hint = ''none'',
        expires = ''never'', visibility = ''private'', created_at = 5\<rparr>,
       \<lparr>paste_id = ''00000000'', content = ''second'', title = ''Untitled Paste'',
        syntax_hint = ''none'', expires = ''never'', visibility = ''public'',
        created_at = 7\<rparr>])"
proof -
  have r: "run False [PostPaste 0 7 [''content'' \<mapsto> ''second''], GetPaste ''0000000a''] 
      [\<lparr>paste_id = ''0000000a'', content = ''first'', title = ''t'', syntax_hint = ''none'',
        expires = ''never'', visibility = ''private'', created_at = 5\<rparr>] =
     ([Created ''/paste/00000000'',
       Page \<lparr>paste_id = ''0000000a'', content = ''first'', title = ''t'',
         syntax_hint = ''none'', expires = ''never'', visibility = ''private'',
         created_at = 5\<rparr>],
      [\<lparr>paste_id = ''0000000a'', content = ''first'', title = ''t'', syntax_hint = ''none'',
        expires = ''never'', visibility = ''private'', created_at = 5\<rparr>,
       \<lparr>paste_id = ''00000000'', content = ''second'', title = ''Untitled Paste'',
        syntax_hint = ''none'', expires = ''never'', visibility = ''public'',
        created_at = 7\<rparr>])"
    by (simp add: handler_defs new_paste_id_0)
  from records_never_change [OF r] r show ?thesis by simp
qed

text \<open>
  C8. Every identifier the generator produces is exactly 8 characters long, each of them
  a lowercase hexadecimal digit (\<^verbatim>\<open>0-9\<close>, \<^verbatim>\<open>a-f\<close>), whatever the random bytes; and
  the URL a successful creation returns is \<^verbatim>\<open>/paste/\<close> followed by that identifier.
\<close>

theorem paste_id_eight_lower_hex:
  "length (new_paste_id rnd) = 8 \<and> list_all is_lower_hex (new_paste_id rnd) \<and>
   (post_api_paste e rnd now form db = (Inr url, db') \<longrightarrow>
      url = ''/paste/'' @ new_paste_id rnd)"
proof -
  have "url = ''/paste/'' @ new_paste_id rnd"
    if "post_api_paste e rnd now form db = (Inr url, db')"
    using post_api_paste_cases [OF that] by auto
  then show ?thesis
    by (simp add: length_new_paste_id new_paste_id_lower_hex)
qed

theorem paste_id_eight_lower_hex_witness:
  "post_api_paste True 0 5 [''content'' \<mapsto> ''hello world''] [] =
     (Inr ''/paste/00000000'',
      [\<lparr>paste_id = ''00000000'', content = ''hello world'', title = ''Untitled Paste'',
        syntax_hint = ''none'', expires = ''never'', visibility = ''public'',
        created_at = 5\<rparr>]) \<and>
   length (new_paste_id 0) = 8 \<and> list_all is_lower_hex (new_paste_id 0) \<and>
   ''/paste/00000000'' = ''/paste/'' @ new_paste_id 0"
proof -
  have h: "post_api_paste True 0 5 [''content'' \<mapsto> ''hello world''] [] =
     (Inr ''/paste/00000000'',
      [\<lparr>paste_id = ''00000000'', content = ''hello world'', title = ''Untitled Paste'',
        syntax_hint = ''none'', expires = ''never'', visibility = ''public'',
        created_at = 5\<rparr>])"
    by (simp add: handler_defs new_paste_id_0)
  from h paste_id_eight_lower_hex [of 0 True 5 "[''content'' \<mapsto> ''hello world'']" "[]"
      "''/paste/00000000''"
      "[\<lparr>paste_id = ''00000000'', content = ''hello world'', title = ''Untitled Paste'',
        syntax_hint = ''none'', expires = ''never'', visibility = ''public'',
        created_at = 5\<rparr>]"]
  show ?thesis by simp
qed

text \<open>
  C9. For any two tables that differ only in the visibility values of their rows,
  \<^verbatim>\<open>GET /api/top\<close> returns the same list on both and \<^verbatim>\<open>GET /api/recent\<close> returns the
  same list on both: no listing reads the \<^verbatim>\<open>visibility\<close> column, a private paste is
  listed as a public one is.
\<close>

theorem listings_ignore_visibility:
  assumes "differ_only_in_visibility db db'"
  shows "top_pastes db = top_pastes db' \<and> recent_pastes db = recent_pastes db'"
  using listing_related [OF assms, of "\<lambda>r. int (length (content r))" 10]
    listing_related [OF assms, of created_at 10]
  by (simp add: top_pastes_def top_rows_def recent_pastes_def recent_rows_def)

theorem listings_ignore_visibility_witness:
  "differ_only_in_visibility
     [\<lparr>paste_id = ''0000000a'', content = ''short'', title = ''s'', syntax_hint = ''none'',
        expires = ''never'', visibility = ''public'', created_at = 5\<rparr>,
      \<lparr>paste_id = ''0000000b'', content = ''longer text'', title = ''l'',
        syntax_hint = ''none'', expires = ''never'', visibility = ''public'',
        created_at = 7\<rparr>]
     [\<lparr>paste_id = ''0000000a'', content = ''short'', title = ''s'', syntax_hint = ''none'',
        expires = ''never'', visibility = ''private'', created_at = 5\<rparr>,
      \<lparr>paste_id = ''0000000b'', content = ''longer text'', title = ''l'',
        syntax_hint = ''none'', expires = ''never'', visibility = ''unlisted'',
        created_at = 7\<rparr>] \<and>
   top_pastes
     [\<lparr>paste_id = ''0000000a'', content = ''short'', title = ''s'', syntax_hint = ''none'',
        expires = ''never'', visibility = ''public'', created_at = 5\<rparr>,
      \<lparr>paste_id = ''0000000b'', content = ''longer text'', title = ''l'',
        syntax_hint = ''none'', expires = ''never'', visibility = ''public'',
        created_at = 7\<rparr>] =
   top_pastes
     [\<lparr>paste_id = ''0000000a'', content = ''short'', title = ''s'', syntax_hint = ''none'',
        expires = ''never'', visibility = ''private'', created_at = 5\<rparr>,
      \<lparr>paste_id = ''0000000b'', content = ''longer text'', title = ''l'',
        syntax_hint = ''none'', expires = ''never'', visibility = ''unlisted'',
        created_at = 7\<rparr>] \<and>
   recent_pastes
     [\<lparr>paste_id = ''0000000a'', content = ''short'', title = ''s'', syntax_hint = ''none'',
        expires = ''never'', visibility = ''private'', created_at = 5\<rparr>,
      \<lparr>paste_id = ''0000000b'', content = ''longer text'', title = ''l'',
        syntax_hint = ''none'', expires = ''never'', visibility = ''unlisted'',
        created_at = 7\<rparr>] =
     [\<lparr>entry_id = ''0000000b'', entry_title = ''l''\<rparr>,
      \<lparr>entry_id = ''0000000a'', entry_title = ''s''\<rparr>]"
proof -
  have d: "differ_only_in_visibility
     [\<lparr>paste_id = ''0000000a'', content = ''short'', title = ''s'', syntax_hint = ''none'',
        expires = ''never'', visibility = ''public'', created_at = 5\<rparr>,
      \<lparr>paste_id = ''0000000b'', content = ''longer text'', title = ''l'',
        syntax_hint = ''none'', expires = ''never'', visibility = ''public'',
        created_at = 7\<rparr>]
     [\<lparr>paste_id = ''0000000a'', content = ''short'', title = ''s'', syntax_hint = ''none'',
        expires = ''never'', visibility = ''private'', created_at = 5\<rparr>,
      \<lparr>paste_id = ''0000000b'', content = ''longer text'', title = ''l'',
        syntax_hint = ''none'', expires = ''never'', visibility = ''unlisted'',
        created_at = 7\<rparr>]"
    by (simp add: differ_only_in_visibility_def)
  have r: "recent_pastes
     [\<lparr>paste_id = ''0000000a'', content = ''short'', title = ''s'', syntax_hint = ''none'',
        expires = ''never'', visibility = ''private'', created_at = 5\<rparr>,
      \<lparr>paste_id = ''0000000b'', content = ''longer text'', title = ''l'',
        syntax_hint = ''none'', expires = ''never'', visibility = ''unlisted'',
        created_at = 7\<rparr>] =
     [\<lparr>entry_id = ''0000000b'', entry_title = ''l''\<rparr>,
      \<lparr>entry_id = ''0000000a'', entry_title = ''s''\<rparr>]"
    by (simp add: handler_defs)
  from listings_ignore_visibility [OF d] d r show ?thesis by simp
qed

text \<open>
  C10 (as amended). In the row a successful creation stores, an optional field
  (\<^verbatim>\<open>title\<close>, \<^verbatim>\<open>syntax\<close>, \<^verbatim>\<open>expires\<close>, \<^verbatim>\<open>visibility\<close>) that is absent from the
  request holds the documented default; one given as the empty string holds the
  default as well, as if it were absent; one given with a non-empty value holds that
  value.
\<close>

theorem empty_optional_fields_take_defaults:
  assumes "post_api_paste e rnd now form db = (Inr url, db')"
  shows "\<exists>row. db' = db @ [row] \<and>
     (form ''title'' = None \<longrightarrow> title row = ''Untitled Paste'') \<and>
     (form ''syntax'' = None \<longrightarrow> syntax_hint row = ''none'') \<and>
     (form ''expires'' = None \<longrightarrow> expires row = ''never'') \<and>
     (form ''visibility'' = None \<longrightarrow> visibility row = ''public'') \<and>
     (form ''title'' = Some [] \<longrightarrow> title row = ''Untitled Paste'') \<and>
     (form ''syntax'' = Some [] \<longrightarrow> syntax_hint row = ''none'') \<and>
     (form ''expires'' = Some [] \<longrightarrow> expires row = ''never'') \<and>
     (form ''visibility'' = Some [] \<longrightarrow> visibility row = ''public'') \<and>
     (\<forall>v. form ''title'' = Some v \<and> v \<noteq> [] \<longrightarrow> title row = v) \<and>
     (\<forall>v. form ''syntax'' = Some v \<and> v \<noteq> [] \<longrightarrow> syntax_hint row = v) \<and>
     (\<forall>v. form ''expires'' = Some v \<and> v \<noteq> [] \<longrightarrow> expires row = v) \<and>
     (\<forall>v. form ''visibility'' = Some v \<and> v \<noteq> [] \<longrightarrow> visibility row = v)"
proof -
  from post_api_paste_success [OF assms] obtain c where
    "db' = db @ [\<lparr>paste_id = new_paste_id rnd, content = c,
              title = form_default form ''title'' ''Untitled Paste'',
              syntax_hint = form_default form ''syntax'' ''none'',
              expires = form_default form ''expires'' ''never'',
              visibility = form_default form ''visibility'' ''public'',
              created_at = now\<rparr>]" by blast
  then show ?thesis
    using form_default_spec [of form "''title''" "''Untitled Paste''"]
      form_default_spec [of form "''syntax''" "''none''"]
      form_default_spec [of form "''expires''" "''never''"]
      form_default_spec [of form "''visibility''" "''public''"]
    by simp
qed

theorem empty_optional_fields_take_defaults_witness:
  "post_api_paste True 0 5
      [''content'' \<mapsto> ''hello world'', ''title'' \<mapsto> '''', ''syntax'' \<mapsto> '''', ''expires'' \<mapsto> '''', ''visibility'' \<mapsto> ''''] [] =
     (Inr ''/paste/00000000'',
      [\<lparr>paste_id = ''00000000'', content = ''hello world'', title = ''Untitled Paste'',
        syntax_hint = ''none'', expires = ''never'', visibility = ''public'',
        created_at = 5\<rparr>]) \<and>
   post_api_paste True 0 5
      [''content'' \<mapsto> ''print(1)'', ''title'' \<mapsto> ''demo'', ''syntax'' \<mapsto> ''python'', ''expires'' \<mapsto> ''1d'', ''visibility'' \<mapsto> ''private''] [] =
     (Inr ''/paste/00000000'',
      [\<lparr>paste_id = ''00000000'', content = ''print(1)'', title = ''demo'',
        syntax_hint = ''python'', expires = ''1d'', visibility = ''private'',
        created_at = 5\<rparr>]) \<and>
   post_api_paste True 0 5 [''content'' \<mapsto> ''hello world''] [] =
     (Inr ''/paste/00000000'',
      [\<lparr>paste_id = ''00000000'', content = ''hello world'', title = ''Untitled Paste'',
        syntax_hint = ''none'', expires = ''never'', visibility = ''public'',
        created_at = 5\<rparr>])"
proof -
  have n: "post_api_paste True 0 5 [''content'' \<mapsto> ''hello world''] [] =
     (Inr ''/paste/00000000'',
      [\<lparr>paste_id = ''00000000'', content = ''hello world'', title = ''Untitled Paste'',
        syntax_hint = ''none'', expires = ''never'', visibility = ''public'',
        created_at = 5\<rparr>])"
    by (simp add: handler_defs new_paste_id_0)
  have a: "post_api_paste True 0 5
      [''content'' \<mapsto> ''hello world'', ''title'' \<mapsto> '''', ''syntax'' \<mapsto> '''', ''expires'' \<mapsto> '''', ''visibility'' \<mapsto> ''''] [] =
     (Inr ''/paste/00000000'',
      [\<lparr>paste_id = ''00000000'', content = ''hello world'', title = ''Untitled Paste'',
        syntax_hint = ''none'', expires = ''never'', visibility = ''public'',
        created_at = 5\<rparr>])"
    by (simp add: handler_defs new_paste_id_0)
  have b: "post_api_paste True 0 5
      [''content'' \<mapsto> ''print(1)'', ''title'' \<mapsto> ''demo'', ''syntax'' \<mapsto> ''python'', ''expires'' \<mapsto> ''1d'', ''visibility'' \<mapsto> ''private''] [] =
     (Inr ''/paste/00000000'',
      [\<lparr>paste_id = ''00000000'', content = ''print(1)'', title = ''demo'',
        syntax_hint = ''python'', expires = ''1d'', visibility = ''private'',
        created_at = 5\<rparr>])"
    by (simp add: handler_defs new_paste_id_0)
  from empty_optional_fields_take_defaults [OF a] empty_optional_fields_take_defaults [OF b]
    empty_optional_fields_take_defaults [OF n] a b n show ?thesis by simp
qed

text \<open>
  C10 as stated, with the empty string stored as it is, fails: four optional fields
  given as the empty string are stored as the four defaults.
\<close>

theorem empty_optional_fields_not_stored:
  "post_api_paste False 0 5
      [''content'' \<mapsto> ''hello world'', ''title'' \<mapsto> '''', ''syntax'' \<mapsto> '''', ''expires'' \<mapsto> '''', ''visibility'' \<mapsto> ''''] [] =
     (Inr ''/paste/00000000'',
      [\<lparr>paste_id = ''00000000'', content = ''hello world'', title = ''Untitled Paste'',
        syntax_hint = ''none'', expires = ''never'', visibility = ''public'',
        created_at = 5\<rparr>])"
  by (simp add: handler_defs new_paste_id_0)

end
